theory Spec2Isabelle
  imports Complex_Main "HOL-Library.Sublist"
begin

section \<open>Data model of the pipeline definition\<close>

text \<open>
  The pipeline notebook builds a declarative pipeline out of SDK objects. Each SDK
  class the notebook instantiates is a datatype whose constructor carries the keyword
  arguments the notebook passes; the opaque \<open>sagemaker_session\<close> handle is left out.
\<close>

datatype param_value = IntValue int | StrValue string

datatype declared_type = IntegerType | StringType

datatype parameter =
    ParameterInteger string int
  | ParameterString string string

fun param_name :: "parameter \<Rightarrow> string" where
  "param_name (ParameterInteger n d) = n"
| "param_name (ParameterString n d) = n"

fun param_type :: "parameter \<Rightarrow> declared_type" where
  "param_type (ParameterInteger n d) = IntegerType"
| "param_type (ParameterString n d) = StringType"

fun default_value :: "parameter \<Rightarrow> param_value" where
  "default_value (ParameterInteger n d) = IntValue d"
| "default_value (ParameterString n d) = StrValue d"

text \<open>
  A value handed to a step: a plain string, a pipeline parameter, or the reference
  \<open>step.properties.ProcessingOutputConfig.Outputs[name].S3Output.S3Uri\<close>, which the
  engine resolves at run time and which is kept here as the pair of the producing
  step's name and the output channel.
\<close>

datatype arg = Str string | Param parameter | S3Uri string string

datatype processing_input = ProcessingInput (input_source: arg) (destination: string)

datatype processing_output = ProcessingOutput (output_name: string) (output_source: string)

datatype property_file =
  PropertyFile (file_name: string) (file_output_name: string) (file_path: string)

datatype processor =
  SKLearnProcessor (framework_version: string) (instance_type: arg) (instance_count: arg)
    (base_job_name: string) (processor_role: string)

datatype json_get =
  JsonGet (get_step_name: string) (get_property_file: property_file) (json_path: string)

datatype condition = ConditionGreaterThanOrEqualTo (left: json_get) (right: rat)

datatype lambda =
  Lambda (lambda_function_name: string) (execution_role_arn: string) (script: string)
    (handler: string)

datatype step =
    ProcessingStep string processor "processing_input list" "processing_output list"
      "arg list" string "property_file list"
  | ConditionStep string "condition list" "step list" "step list"
  | LambdaStep string lambda "(string \<times> arg) list"

datatype pipeline =
  Pipeline (name_of_pipeline: string) (parameters: "parameter list") (steps: "step list")

fun step_name :: "step \<Rightarrow> string" where
  "step_name (ProcessingStep n p ins outs args c pfs) = n"
| "step_name (ConditionStep n cs ifs els) = n"
| "step_name (LambdaStep n f ins) = n"

fun inputs :: "step \<Rightarrow> processing_input list" where
  "inputs (ProcessingStep n p ins outs args c pfs) = ins"
| "inputs (ConditionStep n cs ifs els) = []"
| "inputs (LambdaStep n f ins) = []"

fun outputs :: "step \<Rightarrow> processing_output list" where
  "outputs (ProcessingStep n p ins outs args c pfs) = outs"
| "outputs (ConditionStep n cs ifs els) = []"
| "outputs (LambdaStep n f ins) = []"

fun job_arguments :: "step \<Rightarrow> arg list" where
  "job_arguments (ProcessingStep n p ins outs args c pfs) = args"
| "job_arguments (ConditionStep n cs ifs els) = []"
| "job_arguments (LambdaStep n f ins) = []"

fun code :: "step \<Rightarrow> string option" where
  "code (ProcessingStep n p ins outs args c pfs) = Some c"
| "code (ConditionStep n cs ifs els) = None"
| "code (LambdaStep n f ins) = None"

fun property_files :: "step \<Rightarrow> property_file list" where
  "property_files (ProcessingStep n p ins outs args c pfs) = pfs"
| "property_files (ConditionStep n cs ifs els) = []"
| "property_files (LambdaStep n f ins) = []"

fun conditions :: "step \<Rightarrow> condition list" where
  "conditions (ConditionStep n cs ifs els) = cs"
| "conditions (ProcessingStep n p ins outs args c pfs) = []"
| "conditions (LambdaStep n f ins) = []"

fun if_steps :: "step \<Rightarrow> step list" where
  "if_steps (ConditionStep n cs ifs els) = ifs"
| "if_steps (ProcessingStep n p ins outs args c pfs) = []"
| "if_steps (LambdaStep n f ins) = []"

fun else_steps :: "step \<Rightarrow> step list" where
  "else_steps (ConditionStep n cs ifs els) = els"
| "else_steps (ProcessingStep n p ins outs args c pfs) = []"
| "else_steps (LambdaStep n f ins) = []"

fun lambda_inputs :: "step \<Rightarrow> (string \<times> arg) list" where
  "lambda_inputs (LambdaStep n f ins) = ins"
| "lambda_inputs (ProcessingStep n p ins outs args c pfs) = []"
| "lambda_inputs (ConditionStep n cs ifs els) = []"

fun lambda_func :: "step \<Rightarrow> lambda option" where
  "lambda_func (LambdaStep n f ins) = Some f"
| "lambda_func (ProcessingStep n p ins outs args c pfs) = None"
| "lambda_func (ConditionStep n cs ifs els) = None"

fun step_processor :: "step \<Rightarrow> processor option" where
  "step_processor (ProcessingStep n p ins outs args c pfs) = Some p"
| "step_processor (ConditionStep n cs ifs els) = None"
| "step_processor (LambdaStep n f ins) = None"

text \<open>\<open>s.properties.ProcessingOutputConfig.Outputs[out].S3Output.S3Uri\<close>\<close>

definition properties_output_s3uri :: "step \<Rightarrow> string \<Rightarrow> arg" where
  "properties_output_s3uri s out = S3Uri (step_name s) out"


section \<open>The pipeline notebook, cell by cell\<close>

text \<open>
  The notebook's global variables are the fields of a record, and each code cell that
  binds variables is a function from the state before the cell to the state after it.
  \<open>role_arn\<close>, \<open>default_bucket\<close> and \<open>lambda_role\<close> hold what the SDK and
  the helper \<open>create_lambda_role\<close> return at run time; they are bound once, by calls
  outside the notebook's own code, and are taken from the starting state.
\<close>

record notebook =
  role_arn :: string
  default_bucket :: string
  lambda_role :: string
  processing_instance_count :: parameter
  processing_instance_type :: parameter
  input_train :: parameter
  input_test :: parameter
  model_output :: parameter
  sklearn_processor :: processor
  preprocess :: step
  evaluation_report :: property_file
  comprehend_train_and_eval :: step
  step_deploy_model :: step
  cond_lte :: condition
  step_cond :: step
  example_text :: string
  function_name :: string
  endpoint_lambda :: lambda
  test_endpoint :: step
  pipeline_name :: string
  pipeline :: pipeline

definition cell_parameters :: "notebook \<Rightarrow> notebook" where
  "cell_parameters nb = nb
     \<lparr> processing_instance_count := ParameterInteger ''ProcessingInstanceCount'' 1,
       processing_instance_type := ParameterString ''ProcessingInstanceType'' ''ml.m5.xlarge'',
       input_train :=
         ParameterString ''TrainData'' (''s3://'' @ default_bucket nb @ ''/comprehend-train.csv''),
       input_test :=
         ParameterString ''TestData'' (''s3://'' @ default_bucket nb @ ''/comprehend-test.csv''),
       model_output := ParameterString ''ModelOutput'' (''s3://'' @ default_bucket nb @ ''/model'') \<rparr>"

definition cell_processor :: "notebook \<Rightarrow> notebook" where
  "cell_processor nb = nb
     \<lparr> sklearn_processor :=
         SKLearnProcessor ''0.23-1'' (Param (processing_instance_type nb))
           (Param (processing_instance_count nb)) ''comprehend-process'' (role_arn nb) \<rparr>"

definition cell_preprocess :: "notebook \<Rightarrow> notebook" where
  "cell_preprocess nb = nb
     \<lparr> preprocess :=
         ProcessingStep ''ComprehendProcess'' (sklearn_processor nb)
           [ProcessingInput (Param (input_train nb)) ''/opt/ml/processing/input_train'',
            ProcessingInput (Param (input_test nb)) ''/opt/ml/processing/input_test'']
           [ProcessingOutput ''train'' ''/opt/ml/processing/train'',
            ProcessingOutput ''test'' ''/opt/ml/processing/test'']
           []
           ''prepare_data.py''
           [] \<rparr>"

definition cell_evaluation_report :: "notebook \<Rightarrow> notebook" where
  "cell_evaluation_report nb = nb
     \<lparr> evaluation_report :=
         PropertyFile ''ComprehendEvaluationReport'' ''evaluation'' ''evaluation.json'' \<rparr>"

definition cell_train_and_eval :: "notebook \<Rightarrow> notebook" where
  "cell_train_and_eval nb = nb
     \<lparr> comprehend_train_and_eval :=
         ProcessingStep ''ComprehendTrainAndEval'' (sklearn_processor nb)
           []
           [ProcessingOutput ''evaluation'' ''/opt/ml/processing/evaluation'',
            ProcessingOutput ''arn'' ''/opt/ml/processing/arn'']
           [Str ''--train-input-file'',
            properties_output_s3uri (preprocess nb) ''train'',
            Str ''--train-output-path'',
            Param (model_output nb),
            Str ''--iam-role-arn'',
            Str (role_arn nb)]
           ''train_eval_comprehend.py''
           [evaluation_report nb] \<rparr>"

definition cell_deploy :: "notebook \<Rightarrow> notebook" where
  "cell_deploy nb = nb
     \<lparr> step_deploy_model :=
         ProcessingStep ''ComprehendDeploy'' (sklearn_processor nb)
           []
           [ProcessingOutput ''endpoint_arn'' ''/opt/ml/processing/endpoint_arn'']
           [Str ''--arn-path'',
            properties_output_s3uri (comprehend_train_and_eval nb) ''arn'']
           ''deploy_comprehend.py''
           [] \<rparr>"

text \<open>
  The threshold is the literal \<open>0.65\<close>, which the pipeline definition carries as that
  decimal; it is the rational \<open>65/100\<close> here.
\<close>

definition cell_condition :: "notebook \<Rightarrow> notebook" where
  "cell_condition nb =
     (let cond = ConditionGreaterThanOrEqualTo
                   (JsonGet ''ComprehendTrainAndEval'' (evaluation_report nb) ''Accuracy'')
                   (65 / 100)
      in nb \<lparr> cond_lte := cond,
              step_cond :=
                ConditionStep ''ComprehendAccuracyCondition'' [cond] [step_deploy_model nb] [] \<rparr>)"


text \<open>
  \<open>example_text\<close> holds three characters outside ASCII, written here as their UTF-8
  bytes: the letter a with ring (twice, in the performer's name) and the right single
  quotation mark (three times).
\<close>

definition a_ring :: string where
  "a_ring = [CHR 0xC3, CHR 0xA5]"

definition right_quote :: string where
  "right_quote = [CHR 0xE2, CHR 0x80, CHR 0x99]"

definition cell_example_text :: "notebook \<Rightarrow> notebook" where
  "cell_example_text nb = nb
     \<lparr> example_text :=
         ''Italian EBU Member RAI has won the 65th Eurovision Song Contest with the song ''
         @ ''Zitti e buoni performed by M'' @ a_ring @ ''neskin. It'' @ [CHR 0x27]
           @ ''s the 3rd win for Italy who last triumphed in 1990. ''
         @ ''26 countries took part in the Grand Final of the world'' @ right_quote
           @ ''s largest live music event, ''
         @ ''hosted by Dutch EBU Members NPO, NOS and AVROTROS on Saturday 22 May in Rotterdam. ''
         @ ''M'' @ a_ring
           @ ''neskin wrote the winning song which finished the night with 524 points, 25 points ''
         @ ''ahead of 2nd placed France represented by Barbara Pravi singing Voila. Switzerland''
           @ right_quote @ ''s Gjon'' @ right_quote
           @ ''s Tears with Tout l'' @ right_quote @ ''Univers finished in third place.'' \<rparr>"

definition cell_lambda_step :: "notebook \<Rightarrow> notebook" where
  "cell_lambda_step nb =
     (let fname = ''DEMO-sagemaker-lambda-step-endpoint-test'';
          func = Lambda fname (lambda_role nb) ''test_comprehend_lambda.py''
                   ''test_comprehend_lambda.lambda_handler''
      in nb \<lparr> function_name := fname,
              endpoint_lambda := func,
              test_endpoint :=
                LambdaStep ''LambdaStep'' func
                  [(''endpoint_arn_path'',
                    properties_output_s3uri (step_deploy_model nb) ''endpoint_arn''),
                   (''text'', Str (example_text nb))] \<rparr>)"

definition cell_pipeline :: "notebook \<Rightarrow> notebook" where
  "cell_pipeline nb =
     (let pname = ''ComprehendPipeline''
      in nb \<lparr> pipeline_name := pname,
              pipeline :=
                Pipeline pname
                  [processing_instance_type nb,
                   processing_instance_count nb,
                   input_train nb,
                   input_test nb,
                   model_output nb]
                  [preprocess nb, comprehend_train_and_eval nb, step_cond nb, test_endpoint nb] \<rparr>)"

text \<open>The defining cells in the order of the notebook.\<close>

definition define_pipeline :: "notebook \<Rightarrow> notebook" where
  "define_pipeline nb =
     cell_pipeline (cell_lambda_step (cell_example_text (cell_condition (cell_deploy
       (cell_train_and_eval (cell_evaluation_report (cell_preprocess (cell_processor
         (cell_parameters nb)))))))))"


section \<open>References between steps\<close>

text \<open>
  The output references a value carries, each as the pair of the producing step's name
  and the output channel.
\<close>

fun arg_refs :: "arg \<Rightarrow> (string \<times> string) list" where
  "arg_refs (Str v) = []"
| "arg_refs (Param p) = []"
| "arg_refs (S3Uri s out) = [(s, out)]"

fun output_refs :: "step \<Rightarrow> (string \<times> string) list" where
  "output_refs (ProcessingStep n p ins outs args c pfs) =
     concat (map arg_refs ([instance_type p, instance_count p] @ map input_source ins @ args))"
| "output_refs (ConditionStep n cs ifs els) = []"
| "output_refs (LambdaStep n f ins) = concat (map (arg_refs \<circ> snd) ins)"

text \<open>
  The steps a step waits for: the producers of its output references and, for a
  condition step, the steps whose property files its conditions read.
\<close>

fun depends_on :: "step \<Rightarrow> string list" where
  "depends_on (ConditionStep n cs ifs els) = map (get_step_name \<circ> left) cs"
| "depends_on s = map fst (output_refs s)"

text \<open>Every step of a step list, the branches of condition steps included.\<close>

fun flatten :: "step list \<Rightarrow> step list" where
  "flatten [] = []"
| "flatten (ProcessingStep n p ins outs args c pfs # ss) =
     ProcessingStep n p ins outs args c pfs # flatten ss"
| "flatten (LambdaStep n f ins # ss) = LambdaStep n f ins # flatten ss"
| "flatten (ConditionStep n cs ifs els # ss) =
     ConditionStep n cs ifs els # flatten ifs @ flatten els @ flatten ss"

definition declares :: "step \<Rightarrow> string \<times> string \<Rightarrow> bool" where
  "declares s ref = (step_name s = fst ref \<and> snd ref \<in> set (map output_name (outputs s)))"

text \<open>
  \<open>in_order seen ss\<close>: every step of \<open>ss\<close> depends only on steps named in
  \<open>seen\<close> or standing before it in \<open>ss\<close>.
\<close>

fun in_order :: "string list \<Rightarrow> step list \<Rightarrow> bool" where
  "in_order seen [] = True"
| "in_order seen (s # ss) =
     (list_all (\<lambda>d. d \<in> set seen) (depends_on s) \<and> in_order (seen @ [step_name s]) ss)"

text \<open>
  The step-dependency graph: an edge from a step to each step it waits for, and from
  each step in a branch of a condition step to that condition step.
\<close>

definition dependency_edges :: "step list \<Rightarrow> (string \<times> string) list" where
  "dependency_edges ss =
     concat (map (\<lambda>s. map (\<lambda>d. (step_name s, d)) (depends_on s)
                      @ map (\<lambda>b. (step_name b, step_name s)) (if_steps s @ else_steps s))
               (flatten ss))"

definition dependency_graph :: "pipeline \<Rightarrow> (string \<times> string) set" where
  "dependency_graph p = set (dependency_edges (steps p))"

text \<open>The pipeline parameters a value or a step consumes.\<close>

fun arg_params :: "arg \<Rightarrow> parameter list" where
  "arg_params (Param p) = [p]"
| "arg_params (Str v) = []"
| "arg_params (S3Uri s out) = []"

fun step_params :: "step \<Rightarrow> parameter list" where
  "step_params (ProcessingStep n p ins outs args c pfs) =
     concat (map arg_params ([instance_type p, instance_count p] @ map input_source ins @ args))"
| "step_params (ConditionStep n cs ifs els) = []"
| "step_params (LambdaStep n f ins) = concat (map (arg_params \<circ> snd) ins)"

definition parameter_variables :: "notebook \<Rightarrow> parameter list" where
  "parameter_variables nb =
     [processing_instance_count nb, processing_instance_type nb, input_train nb,
      input_test nb, model_output nb]"

text \<open>
  Job arguments in the style of \<open>argv\<close> flags: a literal flag that starts with two
  dashes, then its value, and so on to the end of the list.
\<close>

fun flag_pairs :: "arg list \<Rightarrow> bool" where
  "flag_pairs [] = True"
| "flag_pairs (Str f # v # rest) = (prefix ''--'' f \<and> flag_pairs rest)"
| "flag_pairs args = False"

definition passes_flags :: "step \<Rightarrow> bool" where
  "passes_flags s = (job_arguments s \<noteq> [] \<and> flag_pairs (job_arguments s))"

text \<open>The container-local paths a processing step wires its inputs and outputs to.\<close>

definition local_paths :: "step \<Rightarrow> string list" where
  "local_paths s = map destination (inputs s) @ map output_source (outputs s)"

definition under_processing :: "string \<Rightarrow> bool" where
  "under_processing path = prefix ''/opt/ml/processing/'' path"

section \<open>The pipeline engine\<close>

text \<open>
  Modelled from the spec: the managed pipeline service, which evaluates the condition
  step and decides which steps run, is not part of the repository. The spec calls the
  pipeline a declarative DAG of steps, a step output reference something a later step
  consumes, and the condition step a branch construct gating downstream steps on a
  predicate, here the comparison \<open>accuracy >= 0.65\<close> on the value read from the
  evaluation report. Accordingly: a step runs once every step it depends on has run; a
  condition step that runs releases its if-branch when all its conditions hold and its
  else-branch otherwise; a condition whose value cannot be read fails the step and
  stops the run. Every other step that runs is taken to finish; the model tells which
  steps run, not how they fare. \<open>readings\<close> gives the value each \<open>JsonGet\<close>
  finds, if any.
\<close>

type_synonym readings = "json_get \<Rightarrow> rat option"

text \<open>
  Modelled from the spec: the engine's evaluation of one condition, the comparison
  \<open>left >= right\<close> on the value read; \<open>None\<close> when there is no value to read.
\<close>

fun holds :: "readings \<Rightarrow> condition \<Rightarrow> bool option" where
  "holds r (ConditionGreaterThanOrEqualTo l t) =
     (case r l of None \<Rightarrow> None | Some v \<Rightarrow> Some (v \<ge> t))"

text \<open>Modelled from the spec: the engine's evaluation of the conditions of a condition step.\<close>

fun all_hold :: "readings \<Rightarrow> condition list \<Rightarrow> bool option" where
  "all_hold r [] = Some True"
| "all_hold r (c # cs) =
     (case holds r c of
        None \<Rightarrow> None
      | Some b \<Rightarrow> (case all_hold r cs of None \<Rightarrow> None | Some bs \<Rightarrow> Some (b \<and> bs)))"

text \<open>
  Modelled from the spec: the engine starts a step when every step it depends on has
  run.
\<close>

definition ready :: "string list \<Rightarrow> step \<Rightarrow> bool" where
  "ready finished s = list_all (\<lambda>d. d \<in> set finished) (depends_on s)"

text \<open>
  Modelled from the spec: the engine's choice of the next step, the first pending step
  that is ready, given with the pending steps without it.
\<close>

fun pick :: "string list \<Rightarrow> step list \<Rightarrow> (step \<times> step list) option" where
  "pick finished [] = None"
| "pick finished (s # ss) =
     (if ready finished s then Some (s, ss)
      else (case pick finished ss of None \<Rightarrow> None | Some (t, rest) \<Rightarrow> Some (t, s # rest)))"

text \<open>
  Modelled from the spec: the steps the engine releases when a step has run, the chosen
  branch of a condition step; \<open>None\<close> when the step fails.
\<close>

fun branch :: "readings \<Rightarrow> step \<Rightarrow> step list option" where
  "branch r (ConditionStep n cs ifs els) =
     (case all_hold r cs of None \<Rightarrow> None | Some b \<Rightarrow> Some (if b then ifs else els))"
| "branch r s = Some []"

text \<open>
  Modelled from the spec: the engine's run of a pipeline. \<open>run r pending finished\<close>
  is the list of the steps that run, in the order in which they run. It ends when no
  pending step is ready: what is still pending never runs.
\<close>

function run :: "readings \<Rightarrow> step list \<Rightarrow> string list \<Rightarrow> string list" where
  "run r pending finished =
     (case pick finished pending of
        None \<Rightarrow> finished
      | Some (s, rest) \<Rightarrow>
          (case branch r s of
             None \<Rightarrow> finished @ [step_name s]
           | Some bs \<Rightarrow> run r (rest @ bs) (finished @ [step_name s])))"
  by pat_completeness auto
termination
proof (relation "measure (\<lambda>(r, pending, finished). size_list size pending)")
  show "wf (measure (\<lambda>(r, pending, finished). size_list size pending))"
    by simp
next
  fix r :: readings and pending finished x2 s rest bs
  assume picked: "pick finished pending = Some x2" "(s, rest) = x2"
    and released: "branch r s = Some bs"
  have "pick finished ss = Some (t, ts) \<Longrightarrow>
      size_list size ss = size_list size ts + size t + 1" for ss t ts
    by (induction ss arbitrary: t ts) (auto split: if_splits option.splits)
  with picked have "size_list size pending = size_list size rest + size s + 1"
    by auto
  moreover from released have "size_list size bs \<le> size s"
    by (cases s) (auto split: option.splits)
  ultimately show "((r, rest @ bs, finished @ [step_name s]), (r, pending, finished))
      \<in> measure (\<lambda>(r, pending, finished). size_list size pending)"
    by (simp add: size_list_append)
qed

text \<open>Modelled from the spec: the steps of a pipeline that an execution runs.\<close>

definition executed :: "pipeline \<Rightarrow> readings \<Rightarrow> string list" where
  "executed p r = run r (steps p) []"

section \<open>The calls the notebooks make\<close>

text \<open>
  Each notebook is a straight sequence of code cells. Its trace lists every call
  expression the cells evaluate, in evaluation order (arguments before the call that
  takes them); attribute reads, subscripts, literals and imports are not calls. A call
  is kept by the name the notebook calls it by; the waiting calls keep their arguments.
\<close>

datatype call =
    Call string
  | Magic string
  | Shell string
  | Fit bool
  | ExecutionWait nat nat
  | WaitForSysProfilingData
  | WaitForFrameworkProfilingData
  | TimeSleep nat

definition pipeline_notebook_calls :: "call list" where
  "pipeline_notebook_calls =
     [Magic ''pip install s3fs'',
      Magic ''load_ext autoreload'',
      Magic ''autoreload 2'',
      Call ''boto3.Session'',
      Call ''sagemaker.session.Session'',
      Call ''sagemaker.get_execution_role'',
      Call ''sagemaker_session.default_bucket'',
      Call ''pd.read_csv'',
      Call ''pd.read_csv'',
      Shell ''aws s3 cp s3://aws-ml-blog/artifacts/comprehend-custom-classification/comprehend-train.csv .'',
      Shell ''aws s3 cp s3://aws-ml-blog/artifacts/comprehend-custom-classification/comprehend-test.csv .'',
      Shell ''aws s3 cp ./comprehend-train.csv s3://$default_bucket/'',
      Shell ''aws s3 cp ./comprehend-test.csv s3://$default_bucket/'',
      Call ''ParameterInteger'',
      Call ''ParameterString'',
      Call ''ParameterString'',
      Call ''ParameterString'',
      Call ''ParameterString'',
      Call ''SKLearnProcessor'',
      Call ''ProcessingInput'',
      Call ''ProcessingInput'',
      Call ''ProcessingOutput'',
      Call ''ProcessingOutput'',
      Call ''ProcessingStep'',
      Call ''PropertyFile'',
      Call ''ProcessingOutput'',
      Call ''ProcessingOutput'',
      Call ''ProcessingStep'',
      Call ''ProcessingOutput'',
      Call ''ProcessingStep'',
      Call ''JsonGet'',
      Call ''ConditionGreaterThanOrEqualTo'',
      Call ''ConditionStep'',
      Call ''create_lambda_role'',
      Call ''Lambda'',
      Call ''LambdaStep'',
      Call ''Pipeline'',
      Call ''pipeline.upsert'',
      Call ''pipeline.start'',
      ExecutionWait 300 25,
      Call ''execution.list_steps'',
      Call ''pipeline.delete'']"


text \<open>The one function the notebooks define themselves.\<close>

definition display_python_profile_stats :: "bool \<Rightarrow> nat \<Rightarrow> call list" where
  "display_python_profile_stats pyinstrument stats =
     (if pyinstrument
      then (if stats > 0 then concat (replicate stats [Call ''IFrame'', Call ''display'']) else [])
      else (if stats > 0 then [Call ''stats.print_top_n_functions''] else []))"


text \<open>The calls whose purpose is to wait.\<close>

fun waits :: "call \<Rightarrow> bool" where
  "waits (ExecutionWait delay max_attempts) = True"
| "waits WaitForSysProfilingData = True"
| "waits WaitForFrameworkProfilingData = True"
| "waits (TimeSleep seconds) = True"
| "waits (Fit wait) = wait"
| "waits (Call f) = False"
| "waits (Magic m) = False"
| "waits (Shell c) = False"







section \<open>A sample session\<close>

text \<open>
  A state in which the three run-time strings are set and no defining cell has run yet.
  The other variables hold empty objects; the defining cells overwrite every one of
  them.
\<close>

definition session_start :: notebook where
  "session_start =
     \<lparr> role_arn = ''arn:aws:iam::111122223333:role/SageMakerExecutionRole'',
       default_bucket = ''sagemaker-eu-west-1-111122223333'',
       lambda_role = ''arn:aws:iam::111122223333:role/DEMO-test-comprehend-lambda-role'',
       processing_instance_count = ParameterInteger [] 0,
       processing_instance_type = ParameterString [] [],
       input_train = ParameterString [] [],
       input_test = ParameterString [] [],
       model_output = ParameterString [] [],
       sklearn_processor = SKLearnProcessor [] (Str []) (Str []) [] [],
       preprocess = ConditionStep [] [] [] [],
       evaluation_report = PropertyFile [] [] [],
       comprehend_train_and_eval = ConditionStep [] [] [] [],
       step_deploy_model = ConditionStep [] [] [] [],
       cond_lte = ConditionGreaterThanOrEqualTo (JsonGet [] (PropertyFile [] [] []) []) 0,
       step_cond = ConditionStep [] [] [] [],
       example_text = [],
       function_name = [],
       endpoint_lambda = Lambda [] [] [] [],
       test_endpoint = ConditionStep [] [] [] [],
       pipeline_name = [],
       pipeline = Pipeline [] [] [] \<rparr>"


section \<open>What the defining cells leave in the variables\<close>

lemmas cells =
  define_pipeline_def cell_pipeline_def cell_lambda_step_def cell_example_text_def
  cell_condition_def cell_deploy_def cell_train_and_eval_def cell_evaluation_report_def
  cell_preprocess_def cell_processor_def cell_parameters_def

text \<open>
  The defining cells bind every variable but the three run-time strings, so what they
  leave behind depends on nothing else in the state they start from.
\<close>

lemma define_pipeline_overwrites:
  fixes nb nb' :: notebook
  assumes "role_arn nb = role_arn nb'" and "default_bucket nb = default_bucket nb'"
    and "lambda_role nb = lambda_role nb'"
  shows "define_pipeline nb = define_pipeline nb'"
  using assms by (cases nb; cases nb') (simp add: cells Let_def)

lemma defined_parameters:
  "parameter_variables (define_pipeline nb) =
     [ParameterInteger ''ProcessingInstanceCount'' 1,
      ParameterString ''ProcessingInstanceType'' ''ml.m5.xlarge'',
      ParameterString ''TrainData'' (''s3://'' @ default_bucket nb @ ''/comprehend-train.csv''),
      ParameterString ''TestData'' (''s3://'' @ default_bucket nb @ ''/comprehend-test.csv''),
      ParameterString ''ModelOutput'' (''s3://'' @ default_bucket nb @ ''/model'')]"
  by (simp add: parameter_variables_def cells Let_def)

lemma defined_pipeline:
  "pipeline (define_pipeline nb) =
     Pipeline ''ComprehendPipeline''
       [processing_instance_type (define_pipeline nb),
        processing_instance_count (define_pipeline nb),
        input_train (define_pipeline nb),
        input_test (define_pipeline nb),
        model_output (define_pipeline nb)]
       [preprocess (define_pipeline nb), comprehend_train_and_eval (define_pipeline nb),
        step_cond (define_pipeline nb), test_endpoint (define_pipeline nb)]"
  by (simp add: cells Let_def)

lemma defined_processor:
  "sklearn_processor (define_pipeline nb) =
     SKLearnProcessor ''0.23-1'' (Param (processing_instance_type (define_pipeline nb)))
       (Param (processing_instance_count (define_pipeline nb))) ''comprehend-process''
       (role_arn nb)"
  by (simp add: cells Let_def)

lemma defined_preprocess:
  "preprocess (define_pipeline nb) =
     ProcessingStep ''ComprehendProcess'' (sklearn_processor (define_pipeline nb))
       [ProcessingInput (Param (input_train (define_pipeline nb)))
          ''/opt/ml/processing/input_train'',
        ProcessingInput (Param (input_test (define_pipeline nb)))
          ''/opt/ml/processing/input_test'']
       [ProcessingOutput ''train'' ''/opt/ml/processing/train'',
        ProcessingOutput ''test'' ''/opt/ml/processing/test'']
       [] ''prepare_data.py'' []"
  by (simp add: cells Let_def)

lemma defined_evaluation_report:
  "evaluation_report (define_pipeline nb) =
     PropertyFile ''ComprehendEvaluationReport'' ''evaluation'' ''evaluation.json''"
  by (simp add: cells Let_def)

lemma defined_train_and_eval:
  "comprehend_train_and_eval (define_pipeline nb) =
     ProcessingStep ''ComprehendTrainAndEval'' (sklearn_processor (define_pipeline nb))
       []
       [ProcessingOutput ''evaluation'' ''/opt/ml/processing/evaluation'',
        ProcessingOutput ''arn'' ''/opt/ml/processing/arn'']
       [Str ''--train-input-file'', S3Uri ''ComprehendProcess'' ''train'',
        Str ''--train-output-path'', Param (model_output (define_pipeline nb)),
        Str ''--iam-role-arn'', Str (role_arn nb)]
       ''train_eval_comprehend.py''
       [evaluation_report (define_pipeline nb)]"
  by (simp add: cells Let_def properties_output_s3uri_def)

lemma defined_deploy:
  "step_deploy_model (define_pipeline nb) =
     ProcessingStep ''ComprehendDeploy'' (sklearn_processor (define_pipeline nb))
       []
       [ProcessingOutput ''endpoint_arn'' ''/opt/ml/processing/endpoint_arn'']
       [Str ''--arn-path'', S3Uri ''ComprehendTrainAndEval'' ''arn'']
       ''deploy_comprehend.py''
       []"
  by (simp add: cells Let_def properties_output_s3uri_def)

lemma defined_condition:
  "cond_lte (define_pipeline nb) =
     ConditionGreaterThanOrEqualTo
       (JsonGet ''ComprehendTrainAndEval'' (evaluation_report (define_pipeline nb)) ''Accuracy'')
       (65 / 100)"
  "step_cond (define_pipeline nb) =
     ConditionStep ''ComprehendAccuracyCondition'' [cond_lte (define_pipeline nb)]
       [step_deploy_model (define_pipeline nb)] []"
  by (simp_all add: cells Let_def)

lemma defined_lambda_step:
  "test_endpoint (define_pipeline nb) =
     LambdaStep ''LambdaStep''
       (Lambda ''DEMO-sagemaker-lambda-step-endpoint-test'' (lambda_role nb)
          ''test_comprehend_lambda.py'' ''test_comprehend_lambda.lambda_handler'')
       [(''endpoint_arn_path'', S3Uri ''ComprehendDeploy'' ''endpoint_arn''),
        (''text'', Str (example_text (define_pipeline nb)))]"
  by (simp add: cells Let_def properties_output_s3uri_def)

lemmas defined_steps =
  defined_processor defined_preprocess defined_evaluation_report
  defined_train_and_eval defined_deploy defined_condition defined_lambda_step

lemmas defined = defined_pipeline defined_steps

lemma flatten_defined:
  "flatten (steps (pipeline (define_pipeline nb))) =
     [preprocess (define_pipeline nb), comprehend_train_and_eval (define_pipeline nb),
      step_cond (define_pipeline nb), step_deploy_model (define_pipeline nb),
      test_endpoint (define_pipeline nb)]"
  by (simp add: defined)

lemma dependency_graph_defined:
  "dependency_graph (pipeline (define_pipeline nb)) =
     {(''ComprehendTrainAndEval'', ''ComprehendProcess''),
      (''ComprehendAccuracyCondition'', ''ComprehendTrainAndEval''),
      (''ComprehendDeploy'', ''ComprehendTrainAndEval''),
      (''ComprehendDeploy'', ''ComprehendAccuracyCondition''),
      (''LambdaStep'', ''ComprehendDeploy'')}"
  unfolding dependency_graph_def dependency_edges_def flatten_defined
  by (auto simp add: defined_steps)

text \<open>
  The steps that run, by the value the condition reads: below the threshold, or with
  nothing to read, the run ends after the condition step.
\<close>

lemma executed_cases:
  "executed (pipeline (define_pipeline nb)) r =
     (case r (JsonGet ''ComprehendTrainAndEval''
               (PropertyFile ''ComprehendEvaluationReport'' ''evaluation'' ''evaluation.json'')
               ''Accuracy'') of
        None \<Rightarrow> [''ComprehendProcess'', ''ComprehendTrainAndEval'',
                 ''ComprehendAccuracyCondition'']
      | Some a \<Rightarrow>
          if a \<ge> 65 / 100
          then [''ComprehendProcess'', ''ComprehendTrainAndEval'',
                ''ComprehendAccuracyCondition'', ''ComprehendDeploy'', ''LambdaStep'']
          else [''ComprehendProcess'', ''ComprehendTrainAndEval'',
                ''ComprehendAccuracyCondition''])"
  by (simp add: executed_def defined ready_def split: option.split)

section \<open>The deployment gate\<close>

text \<open>
  Claim C1. The deployment gate is a single comparison. The condition step has one
  condition, whose threshold is 0.65; its if-branch holds exactly the deploy step and
  its else-branch is empty. In every execution the step \<open>ComprehendDeploy\<close> runs if
  and only if the condition reads a value from the evaluation report and that value is
  at least 0.65; when the value is below 0.65, or there is none, the deploy step does
  not run.
\<close>

theorem deploy_runs_iff_accuracy_reaches_threshold:
  "conditions (step_cond (define_pipeline nb)) = [cond_lte (define_pipeline nb)]
   \<and> right (cond_lte (define_pipeline nb)) = 65 / 100
   \<and> if_steps (step_cond (define_pipeline nb)) = [step_deploy_model (define_pipeline nb)]
   \<and> else_steps (step_cond (define_pipeline nb)) = []
   \<and> step_name (step_deploy_model (define_pipeline nb)) = ''ComprehendDeploy''
   \<and> (''ComprehendDeploy'' \<in> set (executed (pipeline (define_pipeline nb)) r)) =
       (case r (left (cond_lte (define_pipeline nb))) of
          None \<Rightarrow> False
        | Some accuracy \<Rightarrow> accuracy \<ge> 65 / 100)"
  by (simp add: executed_cases defined_steps split: option.split)

text \<open>
  In the sample session the deploy step runs at accuracy 0.65 and at 0.7, and does not
  run at 0.64.
\<close>

theorem deploy_runs_iff_accuracy_reaches_threshold_witness:
  "''ComprehendDeploy''
     \<in> set (executed (pipeline (define_pipeline session_start)) (\<lambda>g. Some (65 / 100)))
   \<and> ''ComprehendDeploy''
     \<in> set (executed (pipeline (define_pipeline session_start)) (\<lambda>g. Some (7 / 10)))
   \<and> ''ComprehendDeploy''
     \<notin> set (executed (pipeline (define_pipeline session_start)) (\<lambda>g. Some (64 / 100)))"
  using deploy_runs_iff_accuracy_reaches_threshold [of session_start "\<lambda>g. Some (65 / 100)"]
    deploy_runs_iff_accuracy_reaches_threshold [of session_start "\<lambda>g. Some (7 / 10)"]
    deploy_runs_iff_accuracy_reaches_threshold [of session_start "\<lambda>g. Some (64 / 100)"]
  by simp

section \<open>The evaluation report\<close>

text \<open>
  Claim C2. The evaluation report is the property file \<open>evaluation.json\<close>. The
  training step \<open>ComprehendTrainAndEval\<close> declares it as its one property file, on
  the output channel \<open>evaluation\<close>, which is one of the outputs of that step. The
  condition step has one condition; it reads the field \<open>Accuracy\<close> of that property
  file of that step through \<open>JsonGet\<close>, and the step it gates is the deploy step.
\<close>

theorem condition_reads_accuracy_of_evaluation_report:
  "evaluation_report (define_pipeline nb) =
     PropertyFile ''ComprehendEvaluationReport'' ''evaluation'' ''evaluation.json''
   \<and> step_name (comprehend_train_and_eval (define_pipeline nb)) = ''ComprehendTrainAndEval''
   \<and> property_files (comprehend_train_and_eval (define_pipeline nb)) =
       [evaluation_report (define_pipeline nb)]
   \<and> file_output_name (evaluation_report (define_pipeline nb))
       \<in> set (map output_name (outputs (comprehend_train_and_eval (define_pipeline nb))))
   \<and> conditions (step_cond (define_pipeline nb)) =
       [ConditionGreaterThanOrEqualTo
          (JsonGet ''ComprehendTrainAndEval'' (evaluation_report (define_pipeline nb))
             ''Accuracy'')
          (65 / 100)]
   \<and> if_steps (step_cond (define_pipeline nb)) = [step_deploy_model (define_pipeline nb)]
   \<and> step_name (step_deploy_model (define_pipeline nb)) = ''ComprehendDeploy''"
  by (simp add: defined)

section \<open>The pipeline parameters\<close>

text \<open>
  Claim C3. The pipeline is constructed with exactly five parameters, each with a name,
  a declared type and a default value: \<open>ProcessingInstanceCount\<close> (integer, default
  1), \<open>ProcessingInstanceType\<close> (string, default \<open>ml.m5.xlarge\<close>), and the
  strings \<open>TrainData\<close>, \<open>TestData\<close> and \<open>ModelOutput\<close>, whose defaults are
  locations in the default bucket. The names are distinct. The list is given in the
  order in which the notebook passes it, the instance type first.
\<close>

theorem pipeline_exposes_five_parameters:
  "parameters (pipeline (define_pipeline nb)) =
     [ParameterString ''ProcessingInstanceType'' ''ml.m5.xlarge'',
      ParameterInteger ''ProcessingInstanceCount'' 1,
      ParameterString ''TrainData'' (''s3://'' @ default_bucket nb @ ''/comprehend-train.csv''),
      ParameterString ''TestData'' (''s3://'' @ default_bucket nb @ ''/comprehend-test.csv''),
      ParameterString ''ModelOutput'' (''s3://'' @ default_bucket nb @ ''/model'')]
   \<and> set (map (\<lambda>p. (param_name p, param_type p, default_value p))
              (parameters (pipeline (define_pipeline nb)))) =
       {(''ProcessingInstanceCount'', IntegerType, IntValue 1),
        (''ProcessingInstanceType'', StringType, StrValue ''ml.m5.xlarge''),
        (''TrainData'', StringType,
           StrValue (''s3://'' @ default_bucket nb @ ''/comprehend-train.csv'')),
        (''TestData'', StringType,
           StrValue (''s3://'' @ default_bucket nb @ ''/comprehend-test.csv'')),
        (''ModelOutput'', StringType, StrValue (''s3://'' @ default_bucket nb @ ''/model''))}
   \<and> length (parameters (pipeline (define_pipeline nb))) = 5
   \<and> distinct (map param_name (parameters (pipeline (define_pipeline nb))))"
  using defined_parameters [of nb]
  by (auto simp add: defined_pipeline parameter_variables_def)

text \<open>
  Claim C4. Each pipeline parameter is defined once, by the parameter cell, and is only
  consumed afterwards: every later defining cell leaves the five parameter variables as
  it found them, so after the last cell they still hold what the parameter cell bound.
  The pipeline is constructed with exactly these five values, their names are distinct,
  and the parameters the steps consume are these five and no others. In the whole
  notebook the parameter constructors are called five times, once for each parameter.
\<close>

theorem parameters_defined_once_and_kept:
  "parameter_variables (cell_processor nb) = parameter_variables nb
   \<and> parameter_variables (cell_preprocess nb) = parameter_variables nb
   \<and> parameter_variables (cell_evaluation_report nb) = parameter_variables nb
   \<and> parameter_variables (cell_train_and_eval nb) = parameter_variables nb
   \<and> parameter_variables (cell_deploy nb) = parameter_variables nb
   \<and> parameter_variables (cell_condition nb) = parameter_variables nb
   \<and> parameter_variables (cell_example_text nb) = parameter_variables nb
   \<and> parameter_variables (cell_lambda_step nb) = parameter_variables nb
   \<and> parameter_variables (cell_pipeline nb) = parameter_variables nb
   \<and> parameter_variables (define_pipeline nb) = parameter_variables (cell_parameters nb)
   \<and> set (parameters (pipeline (define_pipeline nb))) =
       set (parameter_variables (cell_parameters nb))
   \<and> distinct (map param_name (parameter_variables (cell_parameters nb)))
   \<and> set (concat (map step_params (flatten (steps (pipeline (define_pipeline nb)))))) =
       set (parameter_variables (cell_parameters nb))
   \<and> filter (\<lambda>c. c \<in> {Call ''ParameterInteger'', Call ''ParameterString''})
         pipeline_notebook_calls =
       [Call ''ParameterInteger'', Call ''ParameterString'', Call ''ParameterString'',
        Call ''ParameterString'', Call ''ParameterString'']"
proof -
  have kept: "parameter_variables (cell_processor nb) = parameter_variables nb"
    "parameter_variables (cell_preprocess nb) = parameter_variables nb"
    "parameter_variables (cell_evaluation_report nb) = parameter_variables nb"
    "parameter_variables (cell_train_and_eval nb) = parameter_variables nb"
    "parameter_variables (cell_deploy nb) = parameter_variables nb"
    "parameter_variables (cell_condition nb) = parameter_variables nb"
    "parameter_variables (cell_example_text nb) = parameter_variables nb"
    "parameter_variables (cell_lambda_step nb) = parameter_variables nb"
    "parameter_variables (cell_pipeline nb) = parameter_variables nb" for nb
    by (simp_all add: parameter_variables_def cells Let_def)
  have whole: "parameter_variables (define_pipeline nb) = parameter_variables (cell_parameters nb)"
    by (simp add: define_pipeline_def kept)
  have listed: "set (parameters (pipeline (define_pipeline nb))) =
      set (parameter_variables (define_pipeline nb))"
    by (auto simp add: defined_pipeline parameter_variables_def)
  have names: "distinct (map param_name (parameter_variables (cell_parameters nb)))"
    by (simp add: parameter_variables_def cell_parameters_def)
  have used: "set (concat (map step_params (flatten (steps (pipeline (define_pipeline nb)))))) =
      set (parameter_variables (define_pipeline nb))"
    by (auto simp add: defined parameter_variables_def)
  have constructed:
    "filter (\<lambda>c. c \<in> {Call ''ParameterInteger'', Call ''ParameterString''})
         pipeline_notebook_calls =
       [Call ''ParameterInteger'', Call ''ParameterString'', Call ''ParameterString'',
        Call ''ParameterString'', Call ''ParameterString'']"
    by (simp add: pipeline_notebook_calls_def)
  from kept whole listed names used constructed show ?thesis by simp
qed

section \<open>The processing steps\<close>

text \<open>
  Claim C5 as stated, that each of the three script steps passes its script flags as
  job arguments, fails at the first step: \<open>prepare_data.py\<close> is given no job
  arguments at all.
\<close>

theorem prepare_data_gets_no_job_arguments:
  "code (preprocess (define_pipeline session_start)) = Some ''prepare_data.py''
   \<and> job_arguments (preprocess (define_pipeline session_start)) = []
   \<and> \<not> passes_flags (preprocess (define_pipeline session_start))"
  by (simp add: defined_preprocess passes_flags_def)

text \<open>
  Claim C5, amended. The three scripts \<open>prepare_data.py\<close>,
  \<open>train_eval_comprehend.py\<close> and \<open>deploy_comprehend.py\<close> are the code of the
  three processing steps, each run by the same container processor. The steps of
  \<open>train_eval_comprehend.py\<close> and \<open>deploy_comprehend.py\<close> pass their script
  flags as job arguments, each flag followed by its value; the step of
  \<open>prepare_data.py\<close> passes no job arguments. Every local path to which a step
  wires an input or an output is a fixed path under \<open>/opt/ml/processing/\<close>.
\<close>

theorem processing_steps_arguments_and_paths:
  "map code (filter (\<lambda>s. code s \<noteq> None) (flatten (steps (pipeline (define_pipeline nb))))) =
     [Some ''prepare_data.py'', Some ''train_eval_comprehend.py'', Some ''deploy_comprehend.py'']
   \<and> step_processor (preprocess (define_pipeline nb)) =
       Some (sklearn_processor (define_pipeline nb))
   \<and> step_processor (comprehend_train_and_eval (define_pipeline nb)) =
       Some (sklearn_processor (define_pipeline nb))
   \<and> step_processor (step_deploy_model (define_pipeline nb)) =
       Some (sklearn_processor (define_pipeline nb))
   \<and> job_arguments (preprocess (define_pipeline nb)) = []
   \<and> job_arguments (comprehend_train_and_eval (define_pipeline nb)) =
       [Str ''--train-input-file'', S3Uri ''ComprehendProcess'' ''train'',
        Str ''--train-output-path'', Param (model_output (define_pipeline nb)),
        Str ''--iam-role-arn'', Str (role_arn nb)]
   \<and> passes_flags (comprehend_train_and_eval (define_pipeline nb))
   \<and> job_arguments (step_deploy_model (define_pipeline nb)) =
       [Str ''--arn-path'', S3Uri ''ComprehendTrainAndEval'' ''arn'']
   \<and> passes_flags (step_deploy_model (define_pipeline nb))
   \<and> local_paths (preprocess (define_pipeline nb)) =
       [''/opt/ml/processing/input_train'', ''/opt/ml/processing/input_test'',
        ''/opt/ml/processing/train'', ''/opt/ml/processing/test'']
   \<and> local_paths (comprehend_train_and_eval (define_pipeline nb)) =
       [''/opt/ml/processing/evaluation'', ''/opt/ml/processing/arn'']
   \<and> local_paths (step_deploy_model (define_pipeline nb)) =
       [''/opt/ml/processing/endpoint_arn'']
   \<and> list_all under_processing
        (concat (map local_paths (flatten (steps (pipeline (define_pipeline nb))))))"
proof -
  have scripts:
    "map code (filter (\<lambda>s. code s \<noteq> None) (flatten (steps (pipeline (define_pipeline nb))))) =
     [Some ''prepare_data.py'', Some ''train_eval_comprehend.py'', Some ''deploy_comprehend.py'']"
    by (simp add: defined)
  have containers:
    "step_processor (preprocess (define_pipeline nb)) =
       Some (sklearn_processor (define_pipeline nb))"
    "step_processor (comprehend_train_and_eval (define_pipeline nb)) =
       Some (sklearn_processor (define_pipeline nb))"
    "step_processor (step_deploy_model (define_pipeline nb)) =
       Some (sklearn_processor (define_pipeline nb))"
    by (simp_all add: defined_preprocess defined_train_and_eval defined_deploy)
  have arguments: "job_arguments (preprocess (define_pipeline nb)) = []"
    "job_arguments (comprehend_train_and_eval (define_pipeline nb)) =
       [Str ''--train-input-file'', S3Uri ''ComprehendProcess'' ''train'',
        Str ''--train-output-path'', Param (model_output (define_pipeline nb)),
        Str ''--iam-role-arn'', Str (role_arn nb)]"
    "job_arguments (step_deploy_model (define_pipeline nb)) =
       [Str ''--arn-path'', S3Uri ''ComprehendTrainAndEval'' ''arn'']"
    by (simp_all add: defined_preprocess defined_train_and_eval defined_deploy)
  have flags: "passes_flags (comprehend_train_and_eval (define_pipeline nb))"
    "passes_flags (step_deploy_model (define_pipeline nb))"
    by (simp_all add: passes_flags_def arguments)
  have paths: "local_paths (preprocess (define_pipeline nb)) =
       [''/opt/ml/processing/input_train'', ''/opt/ml/processing/input_test'',
        ''/opt/ml/processing/train'', ''/opt/ml/processing/test'']"
    "local_paths (comprehend_train_and_eval (define_pipeline nb)) =
       [''/opt/ml/processing/evaluation'', ''/opt/ml/processing/arn'']"
    "local_paths (step_deploy_model (define_pipeline nb)) = [''/opt/ml/processing/endpoint_arn'']"
    by (simp_all add: local_paths_def defined_preprocess defined_train_and_eval defined_deploy)
  have "concat (map local_paths (flatten (steps (pipeline (define_pipeline nb))))) =
      local_paths (preprocess (define_pipeline nb))
      @ local_paths (comprehend_train_and_eval (define_pipeline nb))
      @ local_paths (step_deploy_model (define_pipeline nb))"
    by (simp add: defined local_paths_def)
  then have "list_all under_processing
        (concat (map local_paths (flatten (steps (pipeline (define_pipeline nb))))))"
    by (simp add: paths under_processing_def)
  with scripts containers arguments flags paths show ?thesis by simp
qed

section \<open>The Lambda step\<close>

text \<open>
  Claim C6. The Lambda step invokes the function whose handler is
  \<open>test_comprehend_lambda.lambda_handler\<close> with exactly two inputs: under the key
  \<open>endpoint_arn_path\<close> the S3 URI of the output \<open>endpoint_arn\<close> of the step
  \<open>ComprehendDeploy\<close>, which that step declares, and under the key \<open>text\<close> the
  example text, a string.
\<close>

theorem lambda_step_handler_and_inputs:
  "lambda_func (test_endpoint (define_pipeline nb)) =
     Some (Lambda ''DEMO-sagemaker-lambda-step-endpoint-test'' (lambda_role nb)
             ''test_comprehend_lambda.py'' ''test_comprehend_lambda.lambda_handler'')
   \<and> lambda_inputs (test_endpoint (define_pipeline nb)) =
       [(''endpoint_arn_path'', S3Uri ''ComprehendDeploy'' ''endpoint_arn''),
        (''text'', Str (example_text (define_pipeline nb)))]
   \<and> length (lambda_inputs (test_endpoint (define_pipeline nb))) = 2
   \<and> declares (step_deploy_model (define_pipeline nb)) (''ComprehendDeploy'', ''endpoint_arn'')"
  by (simp add: defined_lambda_step defined_deploy declares_def)

section \<open>The step-dependency graph\<close>

text \<open>
  Claim C7. In the assembled pipeline the step \<open>ComprehendTrainAndEval\<close> consumes
  the output \<open>train\<close> of \<open>ComprehendProcess\<close>, \<open>ComprehendDeploy\<close> the output
  \<open>arn\<close> of \<open>ComprehendTrainAndEval\<close>, and the Lambda step the output
  \<open>endpoint_arn\<close> of \<open>ComprehendDeploy\<close>; there is no other output reference.
  Each referenced output is declared by exactly one step. Each consuming cell takes
  its reference from the step variable as bound before the cell runs, so the producer
  is defined first. Every step depends only on steps listed before it, and the
  step-dependency graph is acyclic.
\<close>

theorem step_references_point_backwards:
  "map (\<lambda>s. (step_name s, output_refs s)) (flatten (steps (pipeline (define_pipeline nb)))) =
     [(''ComprehendProcess'', []),
      (''ComprehendTrainAndEval'', [(''ComprehendProcess'', ''train'')]),
      (''ComprehendAccuracyCondition'', []),
      (''ComprehendDeploy'', [(''ComprehendTrainAndEval'', ''arn'')]),
      (''LambdaStep'', [(''ComprehendDeploy'', ''endpoint_arn'')])]
   \<and> filter (\<lambda>s. declares s (''ComprehendProcess'', ''train''))
         (flatten (steps (pipeline (define_pipeline nb)))) = [preprocess (define_pipeline nb)]
   \<and> filter (\<lambda>s. declares s (''ComprehendTrainAndEval'', ''arn''))
         (flatten (steps (pipeline (define_pipeline nb)))) =
       [comprehend_train_and_eval (define_pipeline nb)]
   \<and> filter (\<lambda>s. declares s (''ComprehendDeploy'', ''endpoint_arn''))
         (flatten (steps (pipeline (define_pipeline nb)))) =
       [step_deploy_model (define_pipeline nb)]
   \<and> concat (map arg_refs (job_arguments (comprehend_train_and_eval (cell_train_and_eval nb)))) =
       [(step_name (preprocess nb), ''train'')]
   \<and> concat (map arg_refs (job_arguments (step_deploy_model (cell_deploy nb)))) =
       [(step_name (comprehend_train_and_eval nb), ''arn'')]
   \<and> concat (map (arg_refs \<circ> snd) (lambda_inputs (test_endpoint (cell_lambda_step nb)))) =
       [(step_name (step_deploy_model nb), ''endpoint_arn'')]
   \<and> in_order [] (flatten (steps (pipeline (define_pipeline nb))))
   \<and> acyclic (dependency_graph (pipeline (define_pipeline nb)))"
proof -
  let ?position = "\<lambda>n. if n = ''ComprehendProcess'' then 0
      else if n = ''ComprehendTrainAndEval'' then 1
      else if n = ''ComprehendAccuracyCondition'' then 2
      else if n = ''ComprehendDeploy'' then 3
      else (4 :: nat)"
  have refs:
    "map (\<lambda>s. (step_name s, output_refs s)) (flatten (steps (pipeline (define_pipeline nb)))) =
     [(''ComprehendProcess'', []),
      (''ComprehendTrainAndEval'', [(''ComprehendProcess'', ''train'')]),
      (''ComprehendAccuracyCondition'', []),
      (''ComprehendDeploy'', [(''ComprehendTrainAndEval'', ''arn'')]),
      (''LambdaStep'', [(''ComprehendDeploy'', ''endpoint_arn'')])]"
    unfolding flatten_defined by (simp add: defined_steps)
  have producers:
    "filter (\<lambda>s. declares s (''ComprehendProcess'', ''train''))
         (flatten (steps (pipeline (define_pipeline nb)))) = [preprocess (define_pipeline nb)]"
    "filter (\<lambda>s. declares s (''ComprehendTrainAndEval'', ''arn''))
         (flatten (steps (pipeline (define_pipeline nb)))) =
       [comprehend_train_and_eval (define_pipeline nb)]"
    "filter (\<lambda>s. declares s (''ComprehendDeploy'', ''endpoint_arn''))
         (flatten (steps (pipeline (define_pipeline nb)))) =
       [step_deploy_model (define_pipeline nb)]"
    unfolding flatten_defined by (simp_all add: defined_steps declares_def)
  have consumers:
    "concat (map arg_refs (job_arguments (comprehend_train_and_eval (cell_train_and_eval nb)))) =
       [(step_name (preprocess nb), ''train'')]"
    "concat (map arg_refs (job_arguments (step_deploy_model (cell_deploy nb)))) =
       [(step_name (comprehend_train_and_eval nb), ''arn'')]"
    "concat (map (arg_refs \<circ> snd) (lambda_inputs (test_endpoint (cell_lambda_step nb)))) =
       [(step_name (step_deploy_model nb), ''endpoint_arn'')]"
    by (simp_all add: cell_train_and_eval_def cell_deploy_def cell_lambda_step_def Let_def
        properties_output_s3uri_def)
  have ordered: "in_order [] (flatten (steps (pipeline (define_pipeline nb))))"
    unfolding flatten_defined by (simp add: defined_steps)
  have "?position b < ?position a"
    if "(a, b) \<in> dependency_graph (pipeline (define_pipeline nb))" for a b
    using that unfolding dependency_graph_defined by auto
  then have "acyclic (dependency_graph (pipeline (define_pipeline nb)))"
    by (rule acyclicI_order)
  with refs producers consumers ordered show ?thesis by simp
qed

section \<open>The Lambda step and the gate\<close>

text \<open>
  Claim C10. The Lambda step stands at the top level of the pipeline, while the deploy
  step stands only in the if-branch of the condition step. The Lambda step depends on
  \<open>ComprehendDeploy\<close>, whose output it takes as input, so it runs only in executions
  in which the deploy step runs: in every execution in which the accuracy read is below
  0.65 neither the deploy step nor the Lambda step runs.
\<close>

theorem lambda_step_gated_by_accuracy:
  "test_endpoint (define_pipeline nb) \<in> set (steps (pipeline (define_pipeline nb)))
   \<and> step_name (test_endpoint (define_pipeline nb)) = ''LambdaStep''
   \<and> depends_on (test_endpoint (define_pipeline nb)) = [''ComprehendDeploy'']
   \<and> ''ComprehendDeploy'' \<notin> set (map step_name (steps (pipeline (define_pipeline nb))))
   \<and> (''LambdaStep'' \<in> set (executed (pipeline (define_pipeline nb)) r)
        \<longrightarrow> ''ComprehendDeploy'' \<in> set (executed (pipeline (define_pipeline nb)) r))
   \<and> (r (left (cond_lte (define_pipeline nb))) = Some accuracy \<and> accuracy < 65 / 100
        \<longrightarrow> ''ComprehendDeploy'' \<notin> set (executed (pipeline (define_pipeline nb)) r)
            \<and> ''LambdaStep'' \<notin> set (executed (pipeline (define_pipeline nb)) r))"
proof -
  have "test_endpoint (define_pipeline nb) \<in> set (steps (pipeline (define_pipeline nb)))"
    by (simp add: defined_pipeline)
  moreover have "step_name (test_endpoint (define_pipeline nb)) = ''LambdaStep''"
    and "depends_on (test_endpoint (define_pipeline nb)) = [''ComprehendDeploy'']"
    by (simp_all add: defined_lambda_step)
  moreover have
    "''ComprehendDeploy'' \<notin> set (map step_name (steps (pipeline (define_pipeline nb))))"
    by (simp add: defined)
  moreover have "''LambdaStep'' \<in> set (executed (pipeline (define_pipeline nb)) r)
        \<longrightarrow> ''ComprehendDeploy'' \<in> set (executed (pipeline (define_pipeline nb)) r)"
    by (simp add: executed_cases split: option.split)
  moreover have
    "r (left (cond_lte (define_pipeline nb))) = Some accuracy \<and> accuracy < 65 / 100
        \<longrightarrow> ''ComprehendDeploy'' \<notin> set (executed (pipeline (define_pipeline nb)) r)
            \<and> ''LambdaStep'' \<notin> set (executed (pipeline (define_pipeline nb)) r)"
    by (simp add: executed_cases defined_condition defined_evaluation_report)
  ultimately show ?thesis by blast
qed

text \<open>
  In the sample session, at accuracy 0.64 neither step runs; at 0.65 both run, so the
  Lambda step does run in some execution and the first implication is not empty.
\<close>

theorem lambda_step_gated_by_accuracy_witness:
  "(\<lambda>g. Some (64 / 100)) (left (cond_lte (define_pipeline session_start)))
     = Some (64 / 100 :: rat)
   \<and> (64 / 100 :: rat) < 65 / 100
   \<and> ''ComprehendDeploy''
       \<notin> set (executed (pipeline (define_pipeline session_start)) (\<lambda>g. Some (64 / 100)))
   \<and> ''LambdaStep''
       \<notin> set (executed (pipeline (define_pipeline session_start)) (\<lambda>g. Some (64 / 100)))
   \<and> ''LambdaStep''
       \<in> set (executed (pipeline (define_pipeline session_start)) (\<lambda>g. Some (65 / 100)))
   \<and> ''ComprehendDeploy''
       \<in> set (executed (pipeline (define_pipeline session_start)) (\<lambda>g. Some (65 / 100)))"
proof -
  have low:
    "''LambdaStep''
       \<notin> set (executed (pipeline (define_pipeline session_start)) (\<lambda>g. Some (64 / 100)))"
    "''ComprehendDeploy''
       \<notin> set (executed (pipeline (define_pipeline session_start)) (\<lambda>g. Some (64 / 100)))"
    using lambda_step_gated_by_accuracy [of session_start "\<lambda>g. Some (64 / 100)" "64 / 100"]
    by simp_all
  have "''LambdaStep''
      \<in> set (executed (pipeline (define_pipeline session_start)) (\<lambda>g. Some (65 / 100)))"
    by (simp add: executed_cases)
  with lambda_step_gated_by_accuracy [of session_start "\<lambda>g. Some (65 / 100)"] low
  show ?thesis by simp
qed

section \<open>Waiting\<close>

lemma waits_display [simp]: "filter waits (display_python_profile_stats p n) = []"
  by (induction n) (auto simp add: display_python_profile_stats_def)




section \<open>Errors\<close>




end
